theory Spec2Isabelle
  imports Complex_Main
begin

section \<open>Exceptions and results\<close>

text \<open>
  The exceptions the functions of \<^verbatim>\<open>ae_measure2.py\<close> can end in. A \<^verbatim>\<open>ValueError\<close>
  carries its message, so that the one \<^verbatim>\<open>wave2vec\<close> raises itself is told apart from the
  ones raised inside numpy. Every function that can raise returns \<open>error + 'a\<close>, with
  \<open>Inl\<close> for the exception.
\<close>

datatype error =
    ValueError string
  | IndexError
  | ZeroDivisionError
  | NameError

definition err_bind :: "error + 'a \<Rightarrow> ('a \<Rightarrow> error + 'b) \<Rightarrow> error + 'b" where
  "err_bind m f = (case m of Inl e \<Rightarrow> Inl e | Inr x \<Rightarrow> f x)"

text \<open>
  The arrays and numbers the functions return are modelled by exact reals. Where the
  code takes a decision on floats (the equality test of \<^verbatim>\<open>is_clipped\<close> after rounding,
  the threshold test of \<^verbatim>\<open>wave2vec\<close>), the decision is modelled on the doubles the code
  holds, with every operation rounded to the nearest double (\<open>fl\<close> below); a real the
  model is given there stands for the double nearest to it, as Python reads a decimal
  literal. A numpy division does not raise on a zero divisor but yields \<^verbatim>\<open>nan\<close> or an
  infinity; the type below keeps these outcomes apart.
\<close>

datatype npfloat = Finite real | NaN | PosInf | NegInf

definition np_divide :: "real \<Rightarrow> real \<Rightarrow> npfloat" where
  "np_divide x d =
     (if d \<noteq> 0 then Finite (x / d)
      else if x = 0 then NaN
      else if 0 < x then PosInf else NegInf)"

section \<open>numpy helpers\<close>

text \<open>\<^verbatim>\<open>np.where(mask)\<close> on a one-dimensional array: the indices at which the mask holds.\<close>

definition np_where :: "('a \<Rightarrow> bool) \<Rightarrow> 'a list \<Rightarrow> nat list" where
  "np_where P xs = filter (\<lambda>i. P (xs ! i)) [0..<length xs]"

text \<open>\<^verbatim>\<open>a[idx]\<close> with an index array: an index out of bounds raises \<^verbatim>\<open>IndexError\<close>.\<close>

definition np_take :: "'a list \<Rightarrow> nat list \<Rightarrow> error + 'a list" where
  "np_take xs idx =
     (if \<forall>i \<in> set idx. i < length xs then Inr (map (\<lambda>i. xs ! i) idx) else Inl IndexError)"

text \<open>Python's \<^verbatim>\<open>xs[i]\<close> for a non-negative index.\<close>

definition py_index :: "'a list \<Rightarrow> nat \<Rightarrow> error + 'a" where
  "py_index xs i = (if i < length xs then Inr (xs ! i) else Inl IndexError)"

text \<open>
  \<^verbatim>\<open>np.max\<close> and the builtin \<^verbatim>\<open>max\<close>: the largest element; both raise \<^verbatim>\<open>ValueError\<close>
  on an empty sequence.
\<close>

fun max_list :: "real list \<Rightarrow> real" where
  "max_list [] = 0"
| "max_list [x] = x"
| "max_list (x # y # ys) = max x (max_list (y # ys))"

definition np_max :: "real list \<Rightarrow> error + real" where
  "np_max xs =
     (if xs = [] then Inl (ValueError ''zero-size array to reduction operation maximum'')
      else Inr (max_list xs))"

definition py_max :: "real list \<Rightarrow> error + real" where
  "py_max xs =
     (if xs = [] then Inl (ValueError ''max() arg is an empty sequence'')
      else Inr (max_list xs))"

text \<open>\<^verbatim>\<open>np.rint\<close>: the nearest integer, ties going to the even one.\<close>

definition rint :: "real \<Rightarrow> int" where
  "rint x =
     (let f = \<lfloor>x\<rfloor>; d = x - of_int f
      in if d < 1 / 2 then f
         else if 1 / 2 < d then f + 1
         else if even f then f else f + 1)"

text \<open>
  Rounding to the nearest double (IEEE 754 binary64, 53 significant bits, ties to even),
  for magnitudes in the normal range: the spacing of the doubles around \<open>x\<close> is
  \<open>2\<^sup>e\<^sup>-\<^sup>5\<^sup>2\<close> with \<open>e = \<lfloor>log\<^sub>2 |x|\<rfloor>\<close>. Every float operation of the code returns \<open>fl\<close> of
  the exact result.
\<close>

definition fl :: "real \<Rightarrow> real" where
  "fl x =
     (if x = 0 then 0
      else
        (let e = \<lfloor>log 2 \<bar>x\<bar>\<rfloor>;
             ulp = 2 powr (of_int e - 52)
         in of_int (rint (x / ulp)) * ulp))"

text \<open>
  \<^verbatim>\<open>np.round(d, decimals=2)\<close> on a double \<open>d\<close>: numpy multiplies by 100, applies
  \<^verbatim>\<open>rint\<close> and divides by 100, each of the two float operations rounding its result.
\<close>

definition np_round2 :: "real \<Rightarrow> real" where
  "np_round2 d = fl (of_int (rint (fl (d * 100))) / 100)"

section \<open>Clipping detection\<close>

text \<open>
  \<^verbatim>\<open>is_clipped\<close>: the maximum is taken over the rounded magnitudes, the comparison
  \<^verbatim>\<open>sig == max\<close> is made on the magnitudes themselves. The samples are doubles: the
  sample \<open>v\<close> of the model stands for \<open>fl v\<close>.
\<close>

definition is_clipped :: "real list \<Rightarrow> error + bool" where
  "is_clipped sig =
     (let sig1 = map (\<lambda>v. \<bar>fl v\<bar>) sig
      in err_bind (np_max (map np_round2 sig1)) (\<lambda>mx.
         err_bind (np_take sig1 (np_where (\<lambda>x. x = mx) sig1)) (\<lambda>sig2.
         Inr (if 1 < length sig2 then True else False))))"

text \<open>
  The detector as the specification words it: the samples are rounded too before they
  are compared with the largest rounded value.
\<close>

definition is_clipped_spec :: "real list \<Rightarrow> bool" where
  "is_clipped_spec sig =
     (let r = map np_round2 (map (\<lambda>v. \<bar>fl v\<bar>) sig)
      in 1 < length (filter (\<lambda>x. x = max_list r) r))"

section \<open>Removing clipped event pairs\<close>

text \<open>
  \<^verbatim>\<open>remove_clipped\<close> returns four lists when timestamps are given and three otherwise.
\<close>

datatype ('e, 't) filtered =
    Three "real list list" "real list list" "'e list"
  | Four "real list list" "real list list" "'e list" "'t list"

text \<open>\<^verbatim>\<open>is_clipped(v1[i]) and is_clipped(v2[i])\<close>: the second operand is evaluated only
  when the first is true.\<close>

definition both_clipped :: "real list list \<Rightarrow> real list list \<Rightarrow> nat \<Rightarrow> error + bool" where
  "both_clipped v1 v2 i =
     err_bind (py_index v1 i) (\<lambda>a.
     err_bind (is_clipped a) (\<lambda>c1.
     if c1 then err_bind (py_index v2 i) (\<lambda>b. is_clipped b) else Inr False))"

text \<open>The loop of the branch with timestamps, over the indices still to visit.\<close>

fun loop4 ::
  "real list list \<Rightarrow> real list list \<Rightarrow> 'e list \<Rightarrow> 't list \<Rightarrow> nat list \<Rightarrow>
   real list list \<times> real list list \<times> 'e list \<times> 't list \<Rightarrow>
   error + (real list list \<times> real list list \<times> 'e list \<times> 't list)" where
  "loop4 v1 v2 ev time [] acc = Inr acc"
| "loop4 v1 v2 ev time (i # is) (h1, h2, h3, h4) =
     err_bind (both_clipped v1 v2 i) (\<lambda>c.
       if c then loop4 v1 v2 ev time is (h1, h2, h3, h4)
       else
         err_bind (py_index v1 i) (\<lambda>a.
         err_bind (py_index v2 i) (\<lambda>b.
         err_bind (py_index ev i) (\<lambda>e.
         err_bind (py_index time i) (\<lambda>t.
         loop4 v1 v2 ev time is (h1 @ [a], h2 @ [b], h3 @ [e], h4 @ [t]))))))"

text \<open>
  The loop of the branch without timestamps. \<^verbatim>\<open>holder4\<close> is not bound in this branch,
  so the statement \<^verbatim>\<open>holder4.append(time[i])\<close> raises \<^verbatim>\<open>NameError\<close> once the three
  appends before it have run.
\<close>

fun loop3 ::
  "real list list \<Rightarrow> real list list \<Rightarrow> 'e list \<Rightarrow> nat list \<Rightarrow>
   real list list \<times> real list list \<times> 'e list \<Rightarrow>
   error + (real list list \<times> real list list \<times> 'e list)" where
  "loop3 v1 v2 ev [] acc = Inr acc"
| "loop3 v1 v2 ev (i # is) (h1, h2, h3) =
     err_bind (both_clipped v1 v2 i) (\<lambda>c.
       if c then loop3 v1 v2 ev is (h1, h2, h3)
       else
         err_bind (py_index v1 i) (\<lambda>a.
         err_bind (py_index v2 i) (\<lambda>b.
         err_bind (py_index ev i) (\<lambda>e.
         Inl NameError))))"

definition remove_clipped ::
  "real list list \<Rightarrow> real list list \<Rightarrow> 'e list \<Rightarrow> 't list \<Rightarrow> error + ('e, 't) filtered" where
  "remove_clipped v1 v2 ev time =
     (if length time \<noteq> 0 then
        err_bind (loop4 v1 v2 ev time [0..<length v1] ([], [], [], []))
          (\<lambda>(h1, h2, h3, h4). Inr (Four h1 h2 h3 h4))
      else
        err_bind (loop3 v1 v2 ev [0..<length v1] ([], [], []))
          (\<lambda>(h1, h2, h3). Inr (Three h1 h2 h3)))"

section \<open>Channel selection\<close>

definition max_sig :: "real list \<Rightarrow> real list \<Rightarrow> error + real list" where
  "max_sig signal1 signal2 =
     err_bind (py_max (map abs signal1)) (\<lambda>m1.
     err_bind (py_max (map abs signal2)) (\<lambda>m2.
     Inr (if m2 < m1 then signal1 else signal2)))"

definition min_sig :: "real list \<Rightarrow> real list \<Rightarrow> error + real list" where
  "min_sig signal1 signal2 =
     err_bind (py_max (map abs signal1)) (\<lambda>m1.
     err_bind (py_max (map abs signal2)) (\<lambda>m2.
     Inr (if m2 < m1 then signal2 else signal1)))"

text \<open>The peak absolute amplitude of a non-empty waveform, as a maximum over its samples.\<close>

definition peak :: "real list \<Rightarrow> real" where
  "peak xs = Max (abs ` set xs)"

text \<open>
  An event pair survives the filter when the detector runs through without raising and
  does not report both channels as clipped.
\<close>

definition pair_kept :: "real list \<Rightarrow> real list \<Rightarrow> bool" where
  "pair_kept a b \<longleftrightarrow>
     is_clipped a = Inr False \<or> (is_clipped a = Inr True \<and> is_clipped b = Inr False)"

section \<open>Spectrum\<close>

text \<open>
  \<^verbatim>\<open>np.fft.fft\<close>: the discrete Fourier transform
  \<open>A\<^sub>j = \<Sum>\<^sub>k y\<^sub>k exp(-2\<pi>i jk/n)\<close>; numpy rejects an empty input with \<^verbatim>\<open>ValueError\<close>.
  \<^verbatim>\<open>np.abs\<close> of the transform is the list of moduli.
\<close>

definition dft :: "real list \<Rightarrow> nat \<Rightarrow> complex" where
  "dft y j =
     (\<Sum>k<length y. of_real (y ! k) * cis (- (2 * pi * real j * real k / real (length y))))"

definition np_fft_abs :: "real list \<Rightarrow> error + real list" where
  "np_fft_abs y =
     (if y = [] then Inl (ValueError ''Invalid number of FFT data points (0) specified.'')
      else Inr (map (\<lambda>j. cmod (dft y j)) [0..<length y]))"

text \<open>
  \<^verbatim>\<open>np.fft.fftfreq(n, d)\<close>: \<^verbatim>\<open>val = 1.0 / (n * d)\<close>, then the integers
  \<open>0, \<dots>, (n - 1) div 2\<close> followed by \<open>- (n div 2), \<dots>, -1\<close>, each times \<^verbatim>\<open>val\<close>.
\<close>

definition np_fftfreq :: "nat \<Rightarrow> real \<Rightarrow> error + real list" where
  "np_fftfreq n d =
     (if real n * d = 0 then Inl ZeroDivisionError
      else
        (let val = 1 / (real n * d);
             N = (n - 1) div 2 + 1;
             results = map int [0..<N] @ map (\<lambda>i. int i - int (n div 2)) [0..<n div 2]
         in Inr (map (\<lambda>k. of_int k * val) results)))"

text \<open>
  \<^verbatim>\<open>fft\<close>. The second mask \<^verbatim>\<open>z[np.where(w>=0)]\<close> is computed from \<^verbatim>\<open>w\<close> after
  \<^verbatim>\<open>w\<close> has been cut down to its non-negative entries, as in the source. The band limits
  are optional (\<^verbatim>\<open>None\<close> by default).
\<close>

definition fft ::
  "real \<Rightarrow> real list \<Rightarrow> real option \<Rightarrow> real option \<Rightarrow> error + (real list \<times> real list)" where
  "fft dt y low_pass high_pass =
     err_bind (np_fft_abs y) (\<lambda>z0.
     err_bind (np_fftfreq (length z0) dt) (\<lambda>w0.
     err_bind (np_take w0 (np_where (\<lambda>x. 0 \<le> x) w0)) (\<lambda>w1.
     err_bind (np_take z0 (np_where (\<lambda>x. 0 \<le> x) w1)) (\<lambda>z1.
     err_bind
       (case low_pass of
          None \<Rightarrow> Inr (w1, z1)
        | Some lp \<Rightarrow>
            err_bind (np_take z1 (np_where (\<lambda>x. lp < x) w1)) (\<lambda>z2.
            err_bind (np_take w1 (np_where (\<lambda>x. lp < x) w1)) (\<lambda>w2.
            Inr (w2, z2))))
       (\<lambda>(w2, z2).
          case high_pass of
            None \<Rightarrow> Inr (w2, z2)
          | Some hp \<Rightarrow>
              err_bind (np_take z2 (np_where (\<lambda>x. x < hp) w2)) (\<lambda>z3.
              err_bind (np_take w2 (np_where (\<lambda>x. x < hp) w2)) (\<lambda>w3.
              Inr (w3, z3))))))))"

text \<open>The test the two optional band limits of \<^verbatim>\<open>fft\<close> apply to a frequency.\<close>

definition in_band :: "real option \<Rightarrow> real option \<Rightarrow> real \<Rightarrow> bool" where
  "in_band low_pass high_pass f \<longleftrightarrow>
     (case low_pass of None \<Rightarrow> True | Some lp \<Rightarrow> lp < f) \<and>
     (case high_pass of None \<Rightarrow> True | Some hp \<Rightarrow> f < hp)"

section \<open>Feature vector\<close>

text \<open>
  \<^verbatim>\<open>np.linspace(start, stop, num)\<close> with the end point included: a negative \<^verbatim>\<open>num\<close>
  raises, \<^verbatim>\<open>num = 1\<close> gives \<^verbatim>\<open>[start]\<close>.
\<close>

definition np_linspace :: "real \<Rightarrow> real \<Rightarrow> int \<Rightarrow> error + real list" where
  "np_linspace start stop num =
     (if num < 0 then Inl (ValueError ''Number of samples must be non-negative.'')
      else if num = 1 then Inr [start]
      else Inr (map (\<lambda>i. start + real i * ((stop - start) / of_int (num - 1))) [0..<nat num]))"

text \<open>
  \<^verbatim>\<open>np.interp(x, xp, fp)\<close>, as numpy's compiled routine computes it. For each \<open>x\<close> an
  index \<open>j\<close> is searched, starting from the index found for the previous \<open>x\<close>: \<open>len\<close>
  when \<open>x\<close> lies to the right of the last sample point, \<open>-1\<close> when it lies to the left of
  the first (tested in this order), else by a linear scan when there are at most four
  sample points, and otherwise by a look at the neighbours of the guess followed by
  bisection. For increasing \<^verbatim>\<open>xp\<close> this is the \<open>j\<close> with \<open>xp\<^sub>j \<le> x < xp\<^sub>j\<^sub>+\<^sub>1\<close>. The search
  returns indices from \<open>-1\<close> to \<open>len\<close> only.
\<close>

fun lin_scan :: "real \<Rightarrow> real list \<Rightarrow> nat \<Rightarrow> nat" where
  "lin_scan key [] i = i"
| "lin_scan key (a # as) i = (if a \<le> key then lin_scan key as (i + 1) else i)"

definition linear_search :: "real \<Rightarrow> real list \<Rightarrow> nat \<Rightarrow> int" where
  "linear_search key arr i0 = int (lin_scan key (drop i0 arr) i0) - 1"

function bisect :: "real \<Rightarrow> real list \<Rightarrow> nat \<Rightarrow> nat \<Rightarrow> nat" where
  "bisect key arr imin imax =
     (if imin < imax then
        (let imid = imin + (imax - imin) div 2
         in if arr ! imid \<le> key then bisect key arr (imid + 1) imax
            else bisect key arr imin imid)
      else imin)"
  by pat_completeness auto
termination
  by (relation "measure (\<lambda>(key, arr, imin, imax). imax - imin)") auto

definition binary_search_with_guess :: "real \<Rightarrow> real list \<Rightarrow> int \<Rightarrow> int" where
  "binary_search_with_guess key arr guess0 =
     (let len = length arr in
      if last arr < key then int len
      else if key < hd arr then - 1
      else if len \<le> 4 then linear_search key arr 1
      else
        (let guess1 = (if int len - 3 < guess0 then int len - 3 else guess0);
             guess = nat (if guess1 < 1 then 1 else guess1)
         in if key < arr ! guess then
              (if key < arr ! (guess - 1) then
                 int (bisect key arr
                        (if 8 < guess \<and> arr ! (guess - 8) \<le> key then guess - 8 else 0)
                        (guess - 1)) - 1
               else int guess - 1)
            else if key < arr ! (guess + 1) then int guess
            else if key < arr ! (guess + 2) then int guess + 1
            else
              int (bisect key arr (guess + 2)
                     (if int guess < int len - 8 - 1 \<and> key < arr ! (guess + 8)
                      then guess + 8 else len)) - 1))"

text \<open>
  The value at index \<open>j\<close>: \<^verbatim>\<open>fp[0]\<close> for \<open>j = -1\<close>, \<^verbatim>\<open>fp[-1]\<close> for \<open>j = len\<close> and for
  \<open>j = len - 1\<close>, \<^verbatim>\<open>fp[j]\<close> when \<open>x\<close> is the sample point itself, and otherwise the chord
  through the samples \<open>j\<close> and \<open>j + 1\<close>.
\<close>

definition interp_value :: "real \<Rightarrow> real list \<Rightarrow> real list \<Rightarrow> int \<Rightarrow> real" where
  "interp_value x xp fp j =
     (let len = length xp in
      if j < 0 then fp ! 0
      else if int len - 1 \<le> j then fp ! (len - 1)
      else if xp ! nat j = x then fp ! nat j
      else
        (fp ! (nat j + 1) - fp ! nat j) / (xp ! (nat j + 1) - xp ! nat j) * (x - xp ! nat j)
        + fp ! nat j)"

fun interp_loop :: "real list \<Rightarrow> real list \<Rightarrow> real list \<Rightarrow> int \<Rightarrow> real list" where
  "interp_loop [] xp fp j = []"
| "interp_loop (x # xs) xp fp j =
     (let j' = binary_search_with_guess x xp j
      in interp_value x xp fp j' # interp_loop xs xp fp j')"

text \<open>
  numpy raises \<^verbatim>\<open>ValueError\<close> when there are no sample points or when \<^verbatim>\<open>xp\<close> and
  \<^verbatim>\<open>fp\<close> differ in length; a single sample point gives its value everywhere.
\<close>

definition np_interp :: "real list \<Rightarrow> real list \<Rightarrow> real list \<Rightarrow> error + real list" where
  "np_interp xs xp fp =
     (if xp = [] then Inl (ValueError ''array of sample points is empty'')
      else if length fp \<noteq> length xp then Inl (ValueError ''fp and xp are not of the same length.'')
      else if length xp = 1 then Inr (map (\<lambda>x. fp ! 0) xs)
      else Inr (interp_loop xs xp fp 0))"

text \<open>
  \<^verbatim>\<open>scipy.integrate.simps(y)\<close> with unit spacing and the default \<^verbatim>\<open>even='avg'\<close>. For an
  odd number of samples it is Simpson's rule over consecutive triples. For an even number
  it is the mean of two estimates: Simpson's rule on all but the last sample plus a
  trapezoid on the last interval, and Simpson's rule on all but the first sample plus a
  trapezoid on the first interval. An empty input raises \<^verbatim>\<open>IndexError\<close> (the even branch
  reads \<^verbatim>\<open>y[-1]\<close>); a single sample gives 0.
\<close>

fun basic_simps :: "real list \<Rightarrow> real" where
  "basic_simps (a # b # c # ys) = (a + 4 * b + c) / 3 + basic_simps (c # ys)"
| "basic_simps ys = 0"

definition simps :: "real list \<Rightarrow> error + real" where
  "simps y =
     (let N = length y in
      if N = 0 then Inl IndexError
      else if even N then
        Inr ((basic_simps (butlast y) + basic_simps (tl y)) / 2
             + (1 / 2 * (y ! (N - 1) + y ! (N - 2)) + 1 / 2 * (y ! 1 + y ! 0)) / 2)
      else Inr (basic_simps y))"

text \<open>Python's slice \<^verbatim>\<open>xs[a:b]\<close>: negative bounds count from the end, all bounds are clamped.\<close>

definition py_slice :: "'a list \<Rightarrow> int \<Rightarrow> int \<Rightarrow> 'a list" where
  "py_slice xs a b =
     (let n = int (length xs);
          lo = (if a < 0 then max 0 (a + n) else min a n);
          hi = (if b < 0 then max 0 (b + n) else min b n)
      in take (nat (hi - lo)) (drop (nat lo) xs))"

text \<open>\<^verbatim>\<open>int(a / b)\<close> on integers: the exact quotient truncated towards zero.\<close>

definition int_true_div :: "int \<Rightarrow> int \<Rightarrow> error + int" where
  "int_true_div a b =
     (if b = 0 then Inl ZeroDivisionError else Inr (sgn a * sgn b * (\<bar>a\<bar> div \<bar>b\<bar>)))"

text \<open>
  The loop of \<^verbatim>\<open>wave2vec\<close> over \<^verbatim>\<open>range(dims)\<close>, with the two lists it appends to.
  \<^verbatim>\<open>lower/FFT_units\<close> divides Python scalars, so a zero \<^verbatim>\<open>FFT_units\<close> raises there.
\<close>

fun w2v_loop ::
  "real list \<Rightarrow> int \<Rightarrow> real \<Rightarrow> real \<Rightarrow> real \<Rightarrow> int list \<Rightarrow> real list \<times> real list \<Rightarrow>
   error + (real list \<times> real list)" where
  "w2v_loop upsampled_z interval_width dw lower FFT_units [] acc = Inr acc"
| "w2v_loop upsampled_z interval_width dw lower FFT_units (j # js) (feature_vector, true_bounds) =
     err_bind (simps (py_slice upsampled_z (j * interval_width) ((j + 1) * interval_width)))
       (\<lambda>sub_int_mass.
          if FFT_units = 0 then Inl ZeroDivisionError
          else
            w2v_loop upsampled_z interval_width dw lower FFT_units js
              (feature_vector @ [sub_int_mass],
               true_bounds @ [lower / FFT_units + of_int j * of_int interval_width * dw]))"

text \<open>
  \<^verbatim>\<open>wave2vec\<close> up to the end of its loop: the sub-band masses before normalisation, the
  band edges, the grid step \<^verbatim>\<open>dw\<close> and \<^verbatim>\<open>interval_width\<close>. Dividing the numpy arrays
  by a zero \<^verbatim>\<open>FFT_units\<close> does not raise (it gives infinities); in that case the loop or
  the code after it raises whatever the arrays hold, so the values below are never
  returned then.
\<close>

definition wave2vec_masses ::
  "real \<Rightarrow> real list \<Rightarrow> real \<Rightarrow> real \<Rightarrow> int \<Rightarrow> real \<Rightarrow> int \<Rightarrow>
   error + (real list \<times> real list \<times> real \<times> int)" where
  "wave2vec_masses dt waveform lower upper dims FFT_units upsample =
     err_bind (fft dt waveform (Some lower) (Some upper)) (\<lambda>(w0, z).
     let w = map (\<lambda>x. x / FFT_units) w0 in
     err_bind (np_linspace lower upper upsample) (\<lambda>grid.
     let upsampled_w = map (\<lambda>x. x / FFT_units) grid in
     err_bind (np_interp upsampled_w w z) (\<lambda>upsampled_z.
     err_bind (py_index upsampled_w 1) (\<lambda>u1.
     err_bind (py_index upsampled_w 0) (\<lambda>u0.
     let dw = u1 - u0 in
     err_bind (int_true_div (int (length upsampled_z)) dims) (\<lambda>interval_width.
     err_bind
       (w2v_loop upsampled_z interval_width dw lower FFT_units (map int [0..<nat dims]) ([], []))
       (\<lambda>(feature_vector, true_bounds).
     Inr (feature_vector, true_bounds, dw, interval_width))))))))"

text \<open>
  The doubles behind the coverage test. \<^verbatim>\<open>np.linspace\<close> computes
  \<^verbatim>\<open>step = (stop - start) / (num - 1)\<close> and the points \<^verbatim>\<open>i * step + start\<close>, and stores
  \<^verbatim>\<open>stop\<close> itself as the last point; when the step is zero it computes
  \<^verbatim>\<open>(i / (num - 1)) * (stop - start) + start\<close> instead.
\<close>

definition np_linspace64 :: "real \<Rightarrow> real \<Rightarrow> int \<Rightarrow> real list" where
  "np_linspace64 start stop num =
     (let delta = fl (stop - start);
          step = fl (delta / of_int (num - 1))
      in map (\<lambda>i. if 1 < num \<and> int i = num - 1 then stop
                   else if 1 < num \<and> step \<noteq> 0 then fl (fl (real i * step) + start)
                   else if 1 < num then fl (fl (fl (real i / of_int (num - 1)) * delta) + start)
                   else fl (fl (real i * delta) + start))
           [0..<nat num])"

definition np_divide64 :: "real \<Rightarrow> real \<Rightarrow> npfloat" where
  "np_divide64 x d =
     (if d \<noteq> 0 then Finite (fl (x / d))
      else if x = 0 then NaN
      else if 0 < x then PosInf else NegInf)"

text \<open>\<^verbatim>\<open>g > c\<close> for a numpy float \<open>g\<close>: false for \<^verbatim>\<open>nan\<close>.\<close>

fun np_greater :: "npfloat \<Rightarrow> real \<Rightarrow> bool" where
  "np_greater (Finite g) c \<longleftrightarrow> c < g"
| "np_greater PosInf c \<longleftrightarrow> True"
| "np_greater NaN c \<longleftrightarrow> False"
| "np_greater NegInf c \<longleftrightarrow> False"

text \<open>
  The left side of the test
  \<^verbatim>\<open>(upper/FFT_units-true_upper_bound)/(upper/FFT_units-lower/FFT_units)>.01\<close> as the code
  evaluates it, for \<open>n = (j+1)*interval_width\<close>: \<^verbatim>\<open>dw\<close> is the difference of the first two
  points of the double grid, and the last division is numpy's, since
  \<^verbatim>\<open>true_upper_bound\<close> is a numpy float. It is read only after the loop has run, when
  the grid has at least two points.
\<close>

definition coverage_gap64 :: "real \<Rightarrow> real \<Rightarrow> real \<Rightarrow> int \<Rightarrow> int \<Rightarrow> npfloat" where
  "coverage_gap64 lower upper FFT_units upsample n =
     (let lo = fl lower; up = fl upper; units = fl FFT_units;
          upsampled_w = map (\<lambda>y. fl (y / units)) (np_linspace64 lo up upsample);
          dw = fl (upsampled_w ! 1 - upsampled_w ! 0);
          true_upper_bound = fl (fl (fl (of_int n) * dw) + fl (lo / units))
      in np_divide64 (fl (fl (up / units) - true_upper_bound))
                     (fl (fl (up / units) - fl (lo / units))))"

text \<open>
  \<^verbatim>\<open>wave2vec\<close>. After the loop \<^verbatim>\<open>j\<close> is \<^verbatim>\<open>dims - 1\<close>, and unbound when the loop did
  not run. The test is taken on the doubles; the final division is numpy's, element by
  element.
\<close>

definition wave2vec ::
  "real \<Rightarrow> real list \<Rightarrow> real \<Rightarrow> real \<Rightarrow> int \<Rightarrow> real \<Rightarrow> int \<Rightarrow>
   error + (npfloat list \<times> real list \<times> real)" where
  "wave2vec dt waveform lower upper dims FFT_units upsample =
     err_bind (wave2vec_masses dt waveform lower upper dims FFT_units upsample)
       (\<lambda>(feature_vector, true_bounds, dw, interval_width).
          if dims \<le> 0 then Inl NameError
          else if FFT_units = 0 then Inl ZeroDivisionError
          else
            (let j = dims - 1;
                 spacing = of_int interval_width * dw
             in if np_greater
                     (coverage_gap64 lower upper FFT_units upsample ((j + 1) * interval_width))
                     (fl (1 / 100))
                then Inl (ValueError ''Increase upsampling number'')
                else
                  Inr (map (\<lambda>m. np_divide m (sum_list feature_vector)) feature_vector,
                       true_bounds, spacing)))"

text \<open>\<^verbatim>\<open>np.sum\<close> over values that may be \<^verbatim>\<open>nan\<close> or infinite.\<close>

fun np_add :: "npfloat \<Rightarrow> npfloat \<Rightarrow> npfloat" where
  "np_add (Finite a) (Finite b) = Finite (a + b)"
| "np_add NaN y = NaN"
| "np_add x NaN = NaN"
| "np_add PosInf NegInf = NaN"
| "np_add NegInf PosInf = NaN"
| "np_add PosInf y = PosInf"
| "np_add x PosInf = PosInf"
| "np_add NegInf y = NegInf"
| "np_add x NegInf = NegInf"

definition np_sum :: "npfloat list \<Rightarrow> npfloat" where
  "np_sum xs = foldl np_add (Finite 0) xs"


section \<open>Basic facts\<close>

lemma err_bind_Inr [simp]: "err_bind (Inr x) f = f x"
  by (simp add: err_bind_def)

lemma err_bind_Inl [simp]: "err_bind (Inl e) f = Inl e"
  by (simp add: err_bind_def)

lemma err_bind_eq_Inr: "err_bind m f = Inr r \<longleftrightarrow> (\<exists>x. m = Inr x \<and> f x = Inr r)"
  by (cases m) simp_all

text \<open>Indexing with the indices of a mask keeps exactly the elements the mask selects.\<close>

lemma np_take_where: "np_take xs (np_where P xs) = Inr (filter P xs)"
proof -
  have "map (\<lambda>i. xs ! i) (filter (\<lambda>i. P (xs ! i)) [0..<length xs])
        = filter P (map (\<lambda>i. xs ! i) [0..<length xs])"
    by (simp add: filter_map comp_def)
  then show ?thesis
    by (simp add: np_take_def np_where_def map_nth)
qed

lemma max_list_Max: "xs \<noteq> [] \<Longrightarrow> max_list xs = Max (set xs)"
  by (induction xs rule: max_list.induct) auto

lemma max_list_replicate: "0 < n \<Longrightarrow> max_list (replicate n v) = v"
proof (induction n)
  case 0
  then show ?case by simp
next
  case (Suc n)
  then show ?case by (cases n) auto
qed

lemma length_filter_count: "length (filter (\<lambda>x. x = m) xs) = count_list xs m"
  by (induction xs) auto

section \<open>Rounding to doubles: evaluation\<close>

text \<open>
  With \<open>2\<^sup>5\<^sup>2 \<le> |x| 2\<^sup>m < 2\<^sup>5\<^sup>3\<close> the doubles around \<open>x\<close> are the multiples of
  \<open>2\<^sup>-\<^sup>m\<close>, which makes \<open>fl\<close> computable on a given number.
\<close>

lemma fl_eval:
  assumes "2 ^ 52 \<le> \<bar>x\<bar> * 2 ^ m" and "\<bar>x\<bar> * 2 ^ m < 2 ^ 53"
  shows "fl x = of_int (rint (x * 2 ^ m)) / 2 ^ m"
proof -
  from assms(1) have x: "x \<noteq> 0" by auto
  then have ax: "0 < \<bar>x\<bar>" by simp
  have pos: "0 < \<bar>x\<bar> * 2 ^ m" using ax by simp
  have "log 2 (\<bar>x\<bar> * 2 ^ m) = log 2 \<bar>x\<bar> + real m"
    using ax by (simp add: log_mult log_nat_power)
  moreover have "52 \<le> log 2 (\<bar>x\<bar> * 2 ^ m)"
    using assms(1) pos le_log_iff [of 2 "\<bar>x\<bar> * 2 ^ m" 52] by (simp add: powr_realpow)
  moreover have "log 2 (\<bar>x\<bar> * 2 ^ m) < 53"
    using assms(2) pos log_less_iff [of 2 "\<bar>x\<bar> * 2 ^ m" 53] by (simp add: powr_realpow)
  ultimately have "of_int (52 - int m) \<le> log 2 \<bar>x\<bar>"
    and "log 2 \<bar>x\<bar> < of_int (52 - int m) + 1"
    by simp_all
  then have e: "\<lfloor>log 2 \<bar>x\<bar>\<rfloor> = 52 - int m"
    by (simp add: floor_eq_iff)
  have "(2::real) powr (of_int (52 - int m) - 52) = 1 / 2 ^ m"
    by (simp add: powr_minus powr_realpow inverse_eq_divide)
  with x e show ?thesis
    by (simp add: fl_def Let_def)
qed

lemma fl_zero: "fl 0 = 0"
  by (simp add: fl_def)

lemma fl_value_1: "fl (1 / 200) = 5764607523034235 / 1152921504606846976"
  using fl_eval [of "1 / 200" 60] by (simp add: rint_def Let_def)

lemma fl_value_2: "fl (5764607523034235 / 1152921504606846976) = 5764607523034235 / 1152921504606846976"
  using fl_eval [of "5764607523034235 / 1152921504606846976" 60] by (simp add: rint_def Let_def)

lemma fl_value_3: "fl (45035996273705 / 9007199254740992) = 45035996273705 / 9007199254740992"
  using fl_eval [of "45035996273705 / 9007199254740992" 60] by (simp add: rint_def Let_def)

lemma fl_value_4: "fl (1 / 100) = 5764607523034235 / 576460752303423488"
  using fl_eval [of "1 / 100" 59] by (simp add: rint_def Let_def)

lemma fl_value_5: "fl (45035996273705 / 4503599627370496) = 45035996273705 / 4503599627370496"
  using fl_eval [of "45035996273705 / 4503599627370496" 59] by (simp add: rint_def Let_def)

lemma fl_value_6: "fl (2573485501354569 / 36028797018963968) = 2573485501354569 / 36028797018963968"
  using fl_eval [of "2573485501354569 / 36028797018963968" 56] by (simp add: rint_def Let_def)

lemma fl_value_7: "fl (1 / 14) = 2573485501354569 / 36028797018963968"
  using fl_eval [of "1 / 14" 56] by (simp add: rint_def Let_def)

lemma fl_value_8: "fl (1286742750677285 / 18014398509481984) = 1286742750677285 / 18014398509481984"
  using fl_eval [of "1286742750677285 / 18014398509481984" 56] by (simp add: rint_def Let_def)

lemma fl_value_9: "fl (6004799503160661 / 72057594037927936) = 6004799503160661 / 72057594037927936"
  using fl_eval [of "6004799503160661 / 72057594037927936" 56] by (simp add: rint_def Let_def)

lemma fl_value_10: "fl (1 / 12) = 6004799503160661 / 72057594037927936"
  using fl_eval [of "1 / 12" 56] by (simp add: rint_def Let_def)

lemma fl_value_11: "fl (1 / 10) = 3602879701896397 / 36028797018963968"
  using fl_eval [of "1 / 10" 56] by (simp add: rint_def Let_def)

lemma fl_value_12: "fl (101 / 1000) = 3638908498915361 / 36028797018963968"
  using fl_eval [of "101 / 1000" 56] by (simp add: rint_def Let_def)

lemma fl_value_13: "fl (1286742750677285 / 9007199254740992) = 1286742750677285 / 9007199254740992"
  using fl_eval [of "1286742750677285 / 9007199254740992" 55] by (simp add: rint_def Let_def)

lemma fl_value_14: "fl (- (1 / 5)) = - (3602879701896397 / 18014398509481984)"
  using fl_eval [of "- (1 / 5)" 55] by (simp add: rint_def Let_def)

lemma fl_value_15: "fl (1 / 5) = 3602879701896397 / 18014398509481984"
  using fl_eval [of "1 / 5" 55] by (simp add: rint_def Let_def)

lemma fl_value_16: "fl (7720456504063707 / 18014398509481984) = 7720456504063707 / 18014398509481984"
  using fl_eval [of "7720456504063707 / 18014398509481984" 54] by (simp add: rint_def Let_def)

lemma fl_value_17: "fl (4458563631096791 / 9007199254740992) = 4458563631096791 / 9007199254740992"
  using fl_eval [of "4458563631096791 / 9007199254740992" 54] by (simp add: rint_def Let_def)

lemma fl_value_18: "fl (570696144780389265 / 1152921504606846976) = 4458563631096791 / 9007199254740992"
  using fl_eval [of "570696144780389265 / 1152921504606846976" 54] by (simp add: rint_def Let_def)

lemma fl_value_19: "fl (18014398509481983 / 36028797018963968) = 1 / 2"
  using fl_eval [of "18014398509481983 / 36028797018963968" 54] by (simp add: rint_def Let_def)

lemma fl_value_20: "fl (1 / 2) = 1 / 2"
  using fl_eval [of "1 / 2" 53] by (simp add: rint_def Let_def)

lemma fl_value_21: "fl (1) = 1"
  using fl_eval [of "1" 52] by (simp add: rint_def Let_def)

lemma fl_value_22: "fl (6) = 6"
  using fl_eval [of "6" 50] by (simp add: rint_def Let_def)

lemma fl_value_23: "fl (90972712472884025 / 9007199254740992) = 1421448632388813 / 140737488355328"
  using fl_eval [of "90972712472884025 / 9007199254740992" 49] by (simp add: rint_def Let_def)

lemma fl_value_24: "fl (90071992547409925 / 4503599627370496) = 20"
  using fl_eval [of "90071992547409925 / 4503599627370496" 48] by (simp add: rint_def Let_def)

lemma fl_value_25: "fl (50) = 50"
  using fl_eval [of "50" 47] by (simp add: rint_def Let_def)

lemma fl_value_26: "fl (99) = 99"
  using fl_eval [of "99" 46] by (simp add: rint_def Let_def)

lemma fl_value_27: "fl (100) = 100"
  using fl_eval [of "100" 46] by (simp add: rint_def Let_def)

lemmas fl_values = fl_zero fl_value_1 fl_value_2 fl_value_3 fl_value_4 fl_value_5
  fl_value_6 fl_value_7 fl_value_8 fl_value_9 fl_value_10 fl_value_11 fl_value_12
  fl_value_13 fl_value_14 fl_value_15 fl_value_16 fl_value_17 fl_value_18 fl_value_19
  fl_value_20 fl_value_21 fl_value_22 fl_value_23 fl_value_24 fl_value_25 fl_value_26
  fl_value_27

lemma np_round2_value_1:
  "np_round2 (3638908498915361 / 36028797018963968) = 3602879701896397 / 36028797018963968"
  by (simp add: np_round2_def fl_values rint_def Let_def)

lemma np_round2_value_2:
  "np_round2 (1 / 2) = 1 / 2"
  by (simp add: np_round2_def fl_values rint_def Let_def)

lemma np_round2_value_3:
  "np_round2 (3602879701896397 / 18014398509481984) = 3602879701896397 / 18014398509481984"
  by (simp add: np_round2_def fl_values rint_def Let_def)

lemma np_round2_value_4:
  "np_round2 (1) = 1"
  by (simp add: np_round2_def fl_values rint_def Let_def)

lemmas np_round2_values = np_round2_value_1 np_round2_value_2 np_round2_value_3 np_round2_value_4

section \<open>Clipping detection: results\<close>

lemma is_clipped_eq:
  "is_clipped sig =
    (if sig = [] then Inl (ValueError ''zero-size array to reduction operation maximum'')
     else Inr (1 < length (filter
                 (\<lambda>x. x = max_list (map np_round2 (map (\<lambda>v. \<bar>fl v\<bar>) sig)))
                 (map (\<lambda>v. \<bar>fl v\<bar>) sig))))"
  by (simp add: is_clipped_def np_max_def np_take_where Let_def)

text \<open>
  Claim C6 says that \<^verbatim>\<open>is_clipped\<close> is true exactly when, after taking absolute values
  and rounding to two decimals, more than one sample equals the largest rounded value.
  The code breaks this: it rounds only inside \<^verbatim>\<open>np.max\<close> and then compares the
  unrounded samples with the rounded maximum. For the waveform \<open>[0.101, 0.101]\<close> both
  rounded samples equal the rounded maximum \<open>0.1\<close>, so the stated criterion holds, but
  the code finds no sample equal to \<open>0.1\<close> and answers \<^verbatim>\<open>False\<close>.
\<close>

theorem is_clipped_misses_flat_peak:
  "is_clipped [101 / 1000, 101 / 1000] = Inr False \<and> is_clipped_spec [101 / 1000, 101 / 1000]"
  by (simp add: is_clipped_eq is_clipped_spec_def fl_values np_round2_values Let_def)

text \<open>
  Claim C10: a constant waveform with at least two samples whose common magnitude is
  not its own rounding to two decimals is classified as not clipped, since no
  magnitude equals the rounded maximum. The magnitude of the sample \<open>v\<close> is the double
  \<open>|fl v|\<close>. The waveform \<open>[0.101, 0.101]\<close> is one.
\<close>

theorem is_clipped_flat_unrounded:
  assumes "2 \<le> n" and "np_round2 \<bar>fl v\<bar> \<noteq> \<bar>fl v\<bar>"
  shows "is_clipped (replicate n v) = Inr False"
proof -
  from assms(1) have n: "0 < n" "replicate n v \<noteq> []" by auto
  have "max_list (map np_round2 (map (\<lambda>v. \<bar>fl v\<bar>) (replicate n v))) = np_round2 \<bar>fl v\<bar>"
    using n(1) by (simp add: max_list_replicate)
  moreover have "filter (\<lambda>x. x = np_round2 \<bar>fl v\<bar>) (map (\<lambda>v. \<bar>fl v\<bar>) (replicate n v)) = []"
    using assms(2) by (auto simp: filter_empty_conv)
  ultimately show ?thesis
    using n(2) by (simp add: is_clipped_eq del: map_replicate)
qed

theorem is_clipped_flat_unrounded_witness:
  "(2::nat) \<le> 2 \<and> np_round2 \<bar>fl (101 / 1000)\<bar> \<noteq> \<bar>fl (101 / 1000)\<bar> \<and>
   is_clipped [101 / 1000, 101 / 1000] = Inr False"
proof -
  have h: "np_round2 \<bar>fl (101 / 1000)\<bar> \<noteq> \<bar>fl (101 / 1000)\<bar>"
    by (simp add: fl_values np_round2_values)
  have "replicate 2 (101 / 1000 :: real) = [101 / 1000, 101 / 1000]"
    by (simp add: numeral_2_eq_2)
  with is_clipped_flat_unrounded [of 2 "101 / 1000", OF _ h] h show ?thesis
    by simp
qed

section \<open>Removing clipped event pairs: results\<close>

text \<open>
  Claim C7 says that without timestamps \<^verbatim>\<open>remove_clipped\<close> returns three sequences and
  never touches the timestamp accumulator. The code does touch it: with one event whose
  channels are not both clipped, the branch without timestamps reaches
  \<^verbatim>\<open>holder4.append(time[i])\<close> and raises \<^verbatim>\<open>NameError\<close>.
\<close>

theorem remove_clipped_no_time_raises:
  "remove_clipped [[1 / 2, - 1 / 5]] [[1 / 5, 1 / 2]] [1::nat] ([]::real list) = Inl NameError"
  by (simp add: remove_clipped_def both_clipped_def py_index_def is_clipped_eq
      fl_values np_round2_values)

text \<open>The branch without timestamps can only return what it started with: nothing.\<close>

lemma loop3_result: "loop3 v1 v2 ev is acc = Inr r \<Longrightarrow> r = acc"
proof (induction "is" arbitrary: acc)
  case Nil
  then show ?case by simp
next
  case (Cons i "is")
  obtain h1 h2 h3 where acc: "acc = (h1, h2, h3)"
    by (cases acc) auto
  from Cons.prems have "loop3 v1 v2 ev is acc = Inr r"
    unfolding acc
    by (auto simp: err_bind_eq_Inr split: if_splits)
  then show ?case by (rule Cons.IH)
qed

lemma remove_clipped_no_time_result:
  "remove_clipped v1 v2 ev [] = Inr r \<Longrightarrow> r = Three [] [] []"
  by (auto simp: remove_clipped_def err_bind_eq_Inr dest: loop3_result)

lemma both_clipped_nth:
  "i < length v1 \<Longrightarrow>
   both_clipped v1 v2 i =
     err_bind (is_clipped (v1 ! i)) (\<lambda>c1.
       if c1 then err_bind (py_index v2 i) (\<lambda>b. is_clipped b) else Inr False)"
  by (simp add: both_clipped_def py_index_def)

lemma both_clipped_False_iff:
  "i < length v1 \<Longrightarrow> i < length v2 \<Longrightarrow>
   both_clipped v1 v2 i = Inr False \<longleftrightarrow> pair_kept (v1 ! i) (v2 ! i)"
  by (cases "is_clipped (v1 ! i)")
     (auto simp: both_clipped_nth py_index_def pair_kept_def)

text \<open>A successful run of the loop appends the entries at some indices, all of them kept pairs.\<close>

lemma loop4_result:
  "loop4 v1 v2 ev time is (h1, h2, h3, h4) = Inr (r1, r2, r3, r4) \<Longrightarrow>
   \<exists>ks. r1 = h1 @ map (\<lambda>k. v1 ! k) ks \<and> r2 = h2 @ map (\<lambda>k. v2 ! k) ks \<and>
        r3 = h3 @ map (\<lambda>k. ev ! k) ks \<and> r4 = h4 @ map (\<lambda>k. time ! k) ks \<and>
        (\<forall>k \<in> set ks. pair_kept (v1 ! k) (v2 ! k))"
proof (induction "is" arbitrary: h1 h2 h3 h4)
  case Nil
  then show ?case by (intro exI [of _ "[]"]) simp
next
  case (Cons i "is")
  show ?case
  proof (cases "both_clipped v1 v2 i")
    case (Inl e)
    with Cons.prems show ?thesis by simp
  next
    case (Inr c)
    show ?thesis
    proof (cases c)
      case True
      with Inr Cons.prems have "loop4 v1 v2 ev time is (h1, h2, h3, h4) = Inr (r1, r2, r3, r4)"
        by simp
      from Cons.IH [OF this] show ?thesis .
    next
      case False
      with Inr Cons.prems have in_range:
        "i < length v1" "i < length v2" "i < length ev" "i < length time"
        by (auto simp: py_index_def split: if_splits)
      with False Inr Cons.prems have
        "loop4 v1 v2 ev time is (h1 @ [v1 ! i], h2 @ [v2 ! i], h3 @ [ev ! i], h4 @ [time ! i])
           = Inr (r1, r2, r3, r4)"
        by (simp add: py_index_def)
      from Cons.IH [OF this] obtain ks where ks:
        "r1 = (h1 @ [v1 ! i]) @ map (\<lambda>k. v1 ! k) ks"
        "r2 = (h2 @ [v2 ! i]) @ map (\<lambda>k. v2 ! k) ks"
        "r3 = (h3 @ [ev ! i]) @ map (\<lambda>k. ev ! k) ks"
        "r4 = (h4 @ [time ! i]) @ map (\<lambda>k. time ! k) ks"
        "\<forall>k \<in> set ks. pair_kept (v1 ! k) (v2 ! k)"
        by blast
      from False Inr in_range have "pair_kept (v1 ! i) (v2 ! i)"
        by (simp add: both_clipped_False_iff)
      with ks show ?thesis
        by (intro exI [of _ "i # ks"]) simp
    qed
  qed
qed

text \<open>On lists of kept pairs the loop removes nothing.\<close>

lemma loop4_all_kept:
  "\<forall>i \<in> set is. i < length a \<and> i < length b \<and> i < length c \<and> i < length d \<and>
      pair_kept (a ! i) (b ! i) \<Longrightarrow>
   loop4 a b c d is (h1, h2, h3, h4) =
     Inr (h1 @ map (\<lambda>k. a ! k) is, h2 @ map (\<lambda>k. b ! k) is,
          h3 @ map (\<lambda>k. c ! k) is, h4 @ map (\<lambda>k. d ! k) is)"
proof (induction "is" arbitrary: h1 h2 h3 h4)
  case Nil
  then show ?case by simp
next
  case (Cons i "is")
  then have "both_clipped a b i = Inr False"
    by (simp add: both_clipped_False_iff)
  with Cons show ?case
    by (simp add: py_index_def)
qed

text \<open>
  Claim C8, as stated: with timestamps supplied, applying \<^verbatim>\<open>remove_clipped\<close> to its own
  output returns that output unchanged. This fails when every event is removed: the
  output is four empty lists, and on an empty timestamp list the second application
  takes the branch without timestamps and returns three lists.
\<close>

theorem remove_clipped_idempotent_counterexample:
  "remove_clipped [[1, 1]] [[1, 1]] [1::nat] [0::real] = Inr (Four [] [] [] []) \<and>
   remove_clipped [] [] ([]::nat list) ([]::real list) = Inr (Three [] [] [])"
  by (simp add: remove_clipped_def both_clipped_def py_index_def is_clipped_eq
      fl_values np_round2_values)

text \<open>
  Claim C8, amended: when \<^verbatim>\<open>remove_clipped\<close> with timestamps returns four sequences of
  which at least one entry survives, applying it to that output returns the output
  unchanged; when no entry survives, the second application returns the three empty
  sequences without the timestamp sequence.
\<close>

theorem remove_clipped_idempotent:
  assumes "remove_clipped v1 v2 ev time = Inr (Four a b c d)"
  shows "(a \<noteq> [] \<longrightarrow> remove_clipped a b c d = Inr (Four a b c d)) \<and>
         (a = [] \<longrightarrow> remove_clipped a b c d = Inr (Three [] [] []))"
proof -
  from assms have t: "time \<noteq> []"
    by (auto simp: remove_clipped_def err_bind_def split: if_splits sum.splits)
  with assms have "loop4 v1 v2 ev time [0..<length v1] ([], [], [], []) = Inr (a, b, c, d)"
    by (auto simp: remove_clipped_def err_bind_def split: sum.splits)
  from loop4_result [OF this] obtain ks where ks:
    "a = map (\<lambda>k. v1 ! k) ks" "b = map (\<lambda>k. v2 ! k) ks"
    "c = map (\<lambda>k. ev ! k) ks" "d = map (\<lambda>k. time ! k) ks"
    "\<forall>k \<in> set ks. pair_kept (v1 ! k) (v2 ! k)"
    by auto
  then have len: "length b = length a" "length c = length a" "length d = length a"
    by simp_all
  from ks have "\<forall>i \<in> set [0..<length a]. i < length a \<and> i < length b \<and> i < length c \<and>
      i < length d \<and> pair_kept (a ! i) (b ! i)"
    by simp
  from loop4_all_kept [OF this, of "[]" "[]" "[]" "[]"] len
  have l4: "loop4 a b c d [0..<length a] ([], [], [], []) = Inr (a, b, c, d)"
    by (simp add: map_nth) (metis map_nth)
  show ?thesis
  proof (cases "a = []")
    case True
    with len show ?thesis by (simp add: remove_clipped_def)
  next
    case False
    with len l4 show ?thesis by (simp add: remove_clipped_def)
  qed
qed

theorem remove_clipped_idempotent_witness:
  "remove_clipped [[1, 1], [1 / 2, 1]] [[1, 1], [1, 1]] [1::nat, 2] [0::real, 5]
      = Inr (Four [[1 / 2, 1]] [[1, 1]] [2] [5]) \<and>
   remove_clipped [[1 / 2, 1]] [[1, 1]] [2::nat] [5::real] = Inr (Four [[1 / 2, 1]] [[1, 1]] [2] [5])"
proof -
  have h: "remove_clipped [[1, 1], [1 / 2, 1]] [[1, 1], [1, 1]] [1::nat, 2] [0::real, 5]
      = Inr (Four [[1 / 2, 1]] [[1, 1]] [2] [5])"
    by (simp add: remove_clipped_def both_clipped_def py_index_def is_clipped_eq
        fl_values np_round2_values upt_rec)
  from remove_clipped_idempotent [OF h] h show ?thesis by simp
qed

section \<open>Channel selection: results\<close>

lemma py_max_abs: "xs \<noteq> [] \<Longrightarrow> py_max (map abs xs) = Inr (peak xs)"
  using max_list_Max [of "map abs xs"] by (simp add: py_max_def peak_def)

text \<open>
  Claim C9: for waveforms \<open>a\<close> and \<open>b\<close> of the same length, \<^verbatim>\<open>max_sig\<close> and \<^verbatim>\<open>min_sig\<close>
  return \<open>a\<close> and \<open>b\<close> in one order or the other, and different results when
  \<open>a \<noteq> b\<close>; \<^verbatim>\<open>max_sig\<close> returns the first argument exactly when its peak is strictly
  larger, so on equal peaks \<^verbatim>\<open>max_sig\<close> returns the second argument and \<^verbatim>\<open>min_sig\<close>
  the first. Both are functions of their arguments only, and the arguments are
  returned as they are. (Two different waveforms of one length are not empty; on empty
  waveforms there is no peak and both functions raise.)
\<close>

theorem max_min_sig_select:
  assumes "length a = length b"
  shows "(a \<noteq> b \<longrightarrow>
            ((max_sig a b = Inr a \<and> min_sig a b = Inr b) \<or>
             (max_sig a b = Inr b \<and> min_sig a b = Inr a)) \<and>
            max_sig a b \<noteq> min_sig a b) \<and>
         (a \<noteq> [] \<longrightarrow>
            max_sig a b = Inr (if peak b < peak a then a else b) \<and>
            min_sig a b = Inr (if peak b < peak a then b else a)) \<and>
         (a \<noteq> [] \<longrightarrow> peak a = peak b \<longrightarrow> max_sig a b = Inr b \<and> min_sig a b = Inr a)"
proof (cases "a = []")
  case True
  with assms show ?thesis by simp
next
  case False
  with assms have "b \<noteq> []" by auto
  with False show ?thesis
    by (simp add: max_sig_def min_sig_def py_max_abs)
qed

theorem max_min_sig_select_witness:
  "length [1, - 3 :: real] = length [3, 2 :: real] \<and> [1, - 3] \<noteq> [3, 2 :: real] \<and>
   peak [1, - 3] = peak [3, 2] \<and>
   max_sig [1, - 3] [3, 2] = Inr [3, 2] \<and> min_sig [1, - 3] [3, 2] = Inr [1, - 3]"
proof -
  have p: "peak [1, - 3] = peak [3, 2]"
    by (simp add: peak_def)
  with max_min_sig_select [of "[1, - 3]" "[3, 2]"] show ?thesis
    by simp
qed

section \<open>Spectrum: results\<close>

lemma np_where_all: "\<forall>x \<in> set xs. P x \<Longrightarrow> np_where P xs = [0..<length xs]"
  by (auto simp: np_where_def filter_id_conv)

lemma np_take_upt: "k \<le> length xs \<Longrightarrow> np_take xs [0..<k] = Inr (take k xs)"
proof -
  assume k: "k \<le> length xs"
  have "map (\<lambda>i. xs ! i) [0..<k] = take k xs"
    using k by (intro nth_equalityI) simp_all
  with k show ?thesis by (auto simp: np_take_def)
qed

lemma np_take_where_zip:
  assumes "length ws = length zs"
  shows "np_take zs (np_where P ws) = Inr (map snd (filter (\<lambda>(f, m). P f) (zip ws zs)))"
    and "np_take ws (np_where P ws) = Inr (map fst (filter (\<lambda>(f, m). P f) (zip ws zs)))"
proof -
  let ?n = "length ws"
  let ?idx = "filter (\<lambda>i. P (ws ! i)) [0..<?n]"
  have z: "zip ws zs = map (\<lambda>i. (ws ! i, zs ! i)) [0..<?n]"
    using assms by (intro nth_equalityI) simp_all
  have "filter (\<lambda>(f, m). P f) (zip ws zs) = map (\<lambda>i. (ws ! i, zs ! i)) ?idx"
    by (subst z) (simp add: filter_map comp_def)
  then have "map snd (filter (\<lambda>(f, m). P f) (zip ws zs)) = map (\<lambda>i. zs ! i) ?idx"
    and "map fst (filter (\<lambda>(f, m). P f) (zip ws zs)) = map (\<lambda>i. ws ! i) ?idx"
    by (simp_all add: comp_def)
  then show "np_take zs (np_where P ws) = Inr (map snd (filter (\<lambda>(f, m). P f) (zip ws zs)))"
    and "np_take ws (np_where P ws) = Inr (map fst (filter (\<lambda>(f, m). P f) (zip ws zs)))"
    using assms by (auto simp: np_take_def np_where_def)
qed

lemma np_fftfreq_length: "np_fftfreq n d = Inr w0 \<Longrightarrow> length w0 = n"
  by (cases "n = 0") (auto simp: np_fftfreq_def Let_def split: if_splits)

lemma np_fft_abs_length: "np_fft_abs y = Inr z0 \<Longrightarrow> length z0 = length y"
  by (auto simp: np_fft_abs_def split: if_splits)

lemma fft_eq:
  assumes "np_fft_abs y = Inr z0" and "np_fftfreq (length z0) dt = Inr w0"
  shows "fft dt y lo hi =
     (let w1 = filter (\<lambda>x. 0 \<le> x) w0;
          z1 = take (length w1) z0;
          r = filter (\<lambda>(f, m). in_band lo hi f) (zip w1 z1)
      in Inr (map fst r, map snd r))"
proof -
  define w1 where "w1 = filter (\<lambda>x. 0 \<le> x) w0"
  define z1 where "z1 = take (length w1) z0"
  from assms(2) have len0: "length w0 = length z0"
    by (rule np_fftfreq_length)
  have s1: "np_take w0 (np_where (\<lambda>x. 0 \<le> x) w0) = Inr w1"
    by (simp add: np_take_where w1_def)
  have "np_where (\<lambda>x. 0 \<le> x) w1 = [0..<length w1]"
    by (rule np_where_all) (simp add: w1_def)
  moreover have "length w1 \<le> length z0"
    unfolding w1_def len0 [symmetric] by (rule length_filter_le)
  ultimately have s2: "np_take z0 (np_where (\<lambda>x. 0 \<le> x) w1) = Inr z1"
    using np_take_upt [of "length w1" z0] by (simp add: z1_def)
  have len1: "length w1 = length z1"
    using \<open>length w1 \<le> length z0\<close> by (simp add: z1_def)
  have zz: "zip (map fst r) (map snd r) = r" for r :: "(real \<times> real) list"
    by (simp add: zip_map_fst_snd)
  have lenr: "length (map fst r) = length (map snd r)" for r :: "(real \<times> real) list"
    by simp
  have "fft dt y lo hi =
      Inr (map fst (filter (\<lambda>(f, m). in_band lo hi f) (zip w1 z1)),
           map snd (filter (\<lambda>(f, m). in_band lo hi f) (zip w1 z1)))"
  proof (cases lo)
    case None
    show ?thesis
    proof (cases hi)
      case hn: None
      with None show ?thesis
        using assms s1 s2 len1 by (simp add: fft_def in_band_def)
    next
      case (Some hp)
      with None show ?thesis
        using assms s1 s2 np_take_where_zip [OF len1, of "\<lambda>x. x < hp"]
        by (simp add: fft_def in_band_def)
    qed
  next
    case (Some lp)
    note l = np_take_where_zip [OF len1, of "\<lambda>x. lp < x"]
    show ?thesis
    proof (cases hi)
      case None
      with Some show ?thesis
        using assms s1 s2 l by (simp add: fft_def in_band_def)
    next
      case (Some hp)
      let ?r = "filter (\<lambda>(f, m). lp < f) (zip w1 z1)"
      note h = np_take_where_zip [OF lenr [of ?r], of "\<lambda>x. x < hp"]
      have "filter (\<lambda>(f, m). f < hp) ?r = filter (\<lambda>(f, m). lp < f \<and> f < hp) (zip w1 z1)"
        by (simp add: case_prod_unfold conj_commute)
      with Some \<open>lo = Some lp\<close> show ?thesis
        using assms s1 s2 l h by (simp add: fft_def in_band_def zz)
    qed
  qed
  then show ?thesis
    by (simp add: Let_def w1_def z1_def)
qed

text \<open>
  A concrete spectrum: two unit pulses half a period apart, \<open>[1, 0, 0, 1, 0, 0]\<close> with
  \<open>dt = 1\<close>, have the transform \<open>1 + (-1)\<^sup>j\<close>, so every odd bin vanishes.
\<close>

lemma cis_neg_pi_mult: "cis (- (pi * real j)) = (- 1) ^ j"
proof -
  have "cis (- pi) = - 1"
    using cis_cnj [of pi] by simp
  with DeMoivre [of "- pi" j] have "(- 1 :: complex) ^ j = cis (real j * (- pi))"
    by (simp only:)
  then show ?thesis by (simp add: mult.commute)
qed

lemma dft_two_pulses: "dft [1, 0, 0, 1, 0, 0] j = 1 + (- 1) ^ j"
proof -
  have "length [1, 0, 0, 1, 0, 0 :: real] = Suc (Suc (Suc (Suc (Suc (Suc 0)))))" by simp
  then have "dft [1, 0, 0, 1, 0, 0] j = 1 + cis (- (2 * pi * real j * 3 / 6))"
    unfolding dft_def by (simp del: length_Cons)
  also have "- (2 * pi * real j * 3 / 6) = - (pi * real j)" by simp
  finally show ?thesis by (simp add: cis_neg_pi_mult)
qed

lemma np_fft_abs_two_pulses: "np_fft_abs [1, 0, 0, 1, 0, 0] = Inr [2, 0, 2, 0, 2, 0]"
  by (simp add: np_fft_abs_def dft_two_pulses upt_rec)

lemma np_fftfreq_6:
  "np_fftfreq (length [2, 0, 2, 0, 2, 0 :: real]) 1 = Inr [0, 1 / 6, 1 / 3, - 1 / 2, - 1 / 3, - 1 / 6]"
  by (simp add: np_fftfreq_def Let_def upt_rec)

lemma fft_two_pulses:
  "fft 1 [1, 0, 0, 1, 0, 0] (Some 0) (Some (1 / 2)) = Inr ([1 / 6, 1 / 3], [0, 2])"
  using fft_eq [OF np_fft_abs_two_pulses np_fftfreq_6, of "Some 0" "Some (1 / 2)"]
  by (simp add: in_band_def)

lemma np_fftfreq_parts:
  assumes "0 < dt" and "0 < n"
  shows "\<exists>A B. np_fftfreq n dt = Inr (A @ B) \<and> length A + length B = n \<and> A \<noteq> [] \<and>
           (\<forall>f \<in> set A. 0 \<le> f) \<and> (\<forall>f \<in> set B. f < 0) \<and> sorted_wrt (<) A"
proof -
  define val where "val = 1 / (real n * dt)"
  define A where "A = map (\<lambda>i. real i * val) [0..<(n - 1) div 2 + 1]"
  define B where "B = map (\<lambda>i. of_int (int i - int (n div 2)) * val) [0..<n div 2]"
  from assms have val: "0 < val" by (simp add: val_def)
  from assms have nz: "real n * dt \<noteq> 0" by simp
  have "np_fftfreq n dt = Inr (A @ B)"
    using nz by (simp add: np_fftfreq_def Let_def A_def B_def val_def comp_def)
  moreover have "length A + length B = n"
    using assms(2) by (simp add: A_def B_def)
  moreover have "A \<noteq> []" by (simp add: A_def)
  moreover have "\<forall>f \<in> set A. 0 \<le> f"
    using val by (auto simp: A_def)
  moreover have "\<forall>f \<in> set B. f < 0"
  proof
    fix f assume "f \<in> set B"
    then obtain i where "i < n div 2" "f = of_int (int i - int (n div 2)) * val"
      by (auto simp: B_def)
    moreover from this have "(of_int (int i - int (n div 2)) :: real) < 0" by simp
    ultimately show "f < 0" using val by (simp add: mult_neg_pos)
  qed
  moreover have "sorted_wrt (<) A"
  proof -
    have "sorted_wrt (<) [0..<(n - 1) div 2 + 1]"
      by (rule sorted_wrt_upt)
    then have "sorted_wrt (\<lambda>i j. real i * val < real j * val) [0..<(n - 1) div 2 + 1]"
      by (rule sorted_wrt_mono_rel [rotated]) (use val in simp)
    then show ?thesis
      unfolding A_def sorted_wrt_map .
  qed
  ultimately show ?thesis by blast
qed

lemma filter_zip_fst:
  "length ws = length zs \<Longrightarrow> map fst (filter (\<lambda>(f, m). P f) (zip ws zs)) = filter P ws"
  using np_take_where_zip(2) [of ws zs P] np_take_where [of ws P] by simp

text \<open>
  Claim C5, amended: for every \<open>dt > 0\<close> and every non-empty waveform, with either band
  limit absent or present, \<^verbatim>\<open>fft\<close> returns two sequences of equal length; the
  frequencies are non-negative and strictly ascending; and both sequences are the
  original frequency and magnitude arrays indexed by one and the same mask, computed on
  the original frequencies (non-negative and inside the band), so that each magnitude
  kept has the DFT index of the frequency kept with it.
\<close>

theorem fft_one_sided:
  assumes "0 < dt" and "y \<noteq> []"
  shows "\<exists>w z w0 z0.
           fft dt y low_pass high_pass = Inr (w, z) \<and>
           length w = length z \<and>
           (\<forall>f \<in> set w. 0 \<le> f) \<and>
           sorted_wrt (<) w \<and>
           np_fftfreq (length y) dt = Inr w0 \<and> np_fft_abs y = Inr z0 \<and>
           np_take w0 (np_where (\<lambda>f. 0 \<le> f \<and> in_band low_pass high_pass f) w0) = Inr w \<and>
           np_take z0 (np_where (\<lambda>f. 0 \<le> f \<and> in_band low_pass high_pass f) w0) = Inr z"
proof -
  define z0 where "z0 = map (\<lambda>j. cmod (dft y j)) [0..<length y]"
  from assms(2) have z0: "np_fft_abs y = Inr z0" and lz: "length z0 = length y"
    by (simp_all add: np_fft_abs_def z0_def)
  from assms obtain A B where AB:
    "np_fftfreq (length y) dt = Inr (A @ B)" "length A + length B = length y"
    "\<forall>f \<in> set A. 0 \<le> f" "\<forall>f \<in> set B. f < 0" "sorted_wrt (<) A"
    using np_fftfreq_parts [of dt "length y"] by auto
  define w0 where "w0 = A @ B"
  define zA where "zA = take (length A) z0"
  define zB where "zB = drop (length A) z0"
  define r where "r = filter (\<lambda>(f, m). in_band low_pass high_pass f) (zip A zA)"
  have len0: "length w0 = length z0" using AB(2) lz by (simp add: w0_def)
  have lenA: "length A = length zA" using AB(2) lz by (simp add: zA_def)
  have w1: "filter (\<lambda>x. 0 \<le> x) w0 = A"
    using AB(3,4) by (auto simp: w0_def filter_id_conv filter_empty_conv)
  have fft: "fft dt y low_pass high_pass = Inr (map fst r, map snd r)"
    using fft_eq [OF z0, of dt w0 low_pass high_pass] AB(1) lz
    by (simp add: w0_def [symmetric] w1 Let_def r_def zA_def)
  have wr: "map fst r = filter (in_band low_pass high_pass) A"
    unfolding r_def using lenA by (rule filter_zip_fst)
  have zipw: "zip w0 z0 = zip A zA @ zip B zB"
    using lenA by (simp add: w0_def zA_def zB_def zip_append [symmetric])
  have none: "filter (\<lambda>(f, m). 0 \<le> f \<and> in_band low_pass high_pass f) (zip B zB) = []"
    using AB(4) by (auto simp: filter_empty_conv dest!: set_zip_leftD)
  have "filter (\<lambda>(f, m). 0 \<le> f \<and> in_band low_pass high_pass f) (zip A zA) = r"
    unfolding r_def using AB(3) by (intro filter_cong) (auto dest!: set_zip_leftD)
  with none have all: "filter (\<lambda>(f, m). 0 \<le> f \<and> in_band low_pass high_pass f) (zip w0 z0) = r"
    by (simp add: zipw)
  have "length (map fst r) = length (map snd r)" by simp
  moreover have "\<forall>f \<in> set (map fst r). 0 \<le> f"
    using AB(3) by (simp add: wr)
  moreover have "sorted_wrt (<) (map fst r)"
    unfolding wr using AB(5) by (rule sorted_wrt_filter)
  moreover have "np_take w0 (np_where (\<lambda>f. 0 \<le> f \<and> in_band low_pass high_pass f) w0)
      = Inr (map fst r)"
    using np_take_where_zip(2) [OF len0, of "\<lambda>f. 0 \<le> f \<and> in_band low_pass high_pass f"]
    by (simp add: all)
  moreover have "np_take z0 (np_where (\<lambda>f. 0 \<le> f \<and> in_band low_pass high_pass f) w0)
      = Inr (map snd r)"
    using np_take_where_zip(1) [OF len0, of "\<lambda>f. 0 \<le> f \<and> in_band low_pass high_pass f"]
    by (simp add: all)
  ultimately show ?thesis
    using fft AB(1) z0 unfolding w0_def [symmetric] by blast
qed

text \<open>
  Claim C5, as stated, speaks of every waveform. On the empty waveform \<^verbatim>\<open>np.fft.fft\<close>
  raises \<^verbatim>\<open>ValueError\<close>, so \<^verbatim>\<open>fft\<close> returns nothing.
\<close>

theorem fft_empty_counterexample:
  "fft 1 [] None None = Inl (ValueError ''Invalid number of FFT data points (0) specified.'')"
  by (simp add: fft_def np_fft_abs_def)

text \<open>The empty waveform is rejected whatever the spacing and the band limits are.\<close>

lemma fft_empty_raises:
  "fft dt [] low_pass high_pass
     = Inl (ValueError ''Invalid number of FFT data points (0) specified.'')"
  by (simp add: fft_def np_fft_abs_def)

theorem fft_one_sided_witness:
  "(0::real) < 1 \<and> [1, 0, 0, 1, 0, 0] \<noteq> ([]::real list) \<and>
   fft 1 [1, 0, 0, 1, 0, 0] (Some 0) (Some (1 / 2)) = Inr ([1 / 6, 1 / 3], [0, 2]) \<and>
   length [1 / 6, 1 / 3 :: real] = length [0, 2 :: real] \<and>
   (0::real) \<le> 1 / 6 \<and> (0::real) \<le> 1 / 3 \<and> sorted_wrt (<) [1 / 6, 1 / 3 :: real]"
proof -
  have h: "(0::real) < 1" "[1, 0, 0, 1, 0, 0] \<noteq> ([]::real list)" by simp_all
  from fft_one_sided [OF h, of "Some 0" "Some (1 / 2)"] h show ?thesis
    by (simp add: fft_two_pulses)
qed

section \<open>Feature vector: results\<close>

lemma w2v_loop_result:
  "w2v_loop uz iw dw lower F js (fv0, tb0) = Inr (fv, tb) \<Longrightarrow>
   tb = tb0 @ map (\<lambda>j. lower / F + of_int j * of_int iw * dw) js \<and>
   length fv = length fv0 + length js \<and> (js \<noteq> [] \<longrightarrow> F \<noteq> 0)"
proof (induction js arbitrary: fv0 tb0)
  case Nil
  then show ?case by simp
next
  case (Cons j js)
  from Cons.prems obtain m where m:
    "simps (py_slice uz (j * iw) ((j + 1) * iw)) = Inr m" "F \<noteq> 0"
    "w2v_loop uz iw dw lower F js (fv0 @ [m], tb0 @ [lower / F + of_int j * of_int iw * dw])
       = Inr (fv, tb)"
    by (auto simp: err_bind_eq_Inr split: if_splits)
  from Cons.IH [OF m(3)] m(2) show ?case by simp
qed

lemma np_linspace_nth:
  "np_linspace start stop num = Inr grid \<Longrightarrow>
   length grid = nat num \<and>
   (\<forall>i < length grid. grid ! i = start + real i * ((stop - start) / of_int (num - 1)))"
  by (auto simp: np_linspace_def split: if_splits)

lemma int_true_div_pos:
  "0 \<le> a \<Longrightarrow> 0 < b \<Longrightarrow> int_true_div a b = Inr (a div b)"
  by (cases "a = 0") (simp_all add: int_true_div_def)

lemma interp_loop_length: "length (interp_loop xs xp fp j) = length xs"
  by (induction xs arbitrary: j) (simp_all add: Let_def)

lemma np_interp_length: "np_interp xs xp fp = Inr r \<Longrightarrow> length r = length xs"
  by (auto simp: np_interp_def interp_loop_length split: if_splits)

text \<open>What a successful run up to the end of the loop fixes.\<close>

lemma wave2vec_masses_result:
  assumes "wave2vec_masses dt waveform lower upper dims F upsample = Inr (fv, tb, dw, iw)"
  shows "2 \<le> upsample" and "dims \<noteq> 0"
    and "dw = (upper - lower) / of_int (upsample - 1) / F"
    and "0 < dims \<Longrightarrow> iw = upsample div dims"
    and "0 < dims \<Longrightarrow> F \<noteq> 0"
    and "length fv = nat dims"
    and "tb = map (\<lambda>j. lower / F + of_int j * of_int iw * dw) (map int [0..<nat dims])"
proof -
  from assms obtain w0 z grid uz u1 u0 iw' where steps:
    "fft dt waveform (Some lower) (Some upper) = Inr (w0, z)"
    "np_linspace lower upper upsample = Inr grid"
    "np_interp (map (\<lambda>x. x / F) grid) (map (\<lambda>x. x / F) w0) z = Inr uz"
    "py_index (map (\<lambda>x. x / F) grid) 1 = Inr u1"
    "py_index (map (\<lambda>x. x / F) grid) 0 = Inr u0"
    "int_true_div (int (length uz)) dims = Inr iw'"
    "w2v_loop uz iw' (u1 - u0) lower F (map int [0..<nat dims]) ([], []) = Inr (fv, tb)"
    "dw = u1 - u0" "iw = iw'"
    by (auto simp: wave2vec_masses_def err_bind_eq_Inr Let_def split: prod.splits)
  from steps(4) have l1: "1 < length grid" and u1: "u1 = grid ! 1 / F"
    by (auto simp: py_index_def split: if_splits)
  from steps(5) l1 have u0: "u0 = grid ! 0 / F"
    by (auto simp: py_index_def split: if_splits)
  note g = np_linspace_nth [OF steps(2)]
  from g l1 show up: "2 \<le> upsample" by simp
  from steps(6) show "dims \<noteq> 0"
    by (auto simp: int_true_div_def split: if_splits)
  define s where "s = (upper - lower) / real_of_int (upsample - 1)"
  from g l1 have "grid ! 1 = lower + s" and "grid ! 0 = lower"
    unfolding s_def by simp_all
  with u1 u0 steps(8) have "dw = s / F"
    by (simp add: add_divide_distrib)
  then show "dw = (upper - lower) / of_int (upsample - 1) / F"
    by (simp add: s_def)
  have luz: "length uz = nat upsample"
    using np_interp_length [OF steps(3)] g by simp
  show "iw = upsample div dims" if "0 < dims"
    using steps(6,9) that up int_true_div_pos [of "int (length uz)" dims] by (simp add: luz)
  note l = w2v_loop_result [OF steps(7)]
  from l show "F \<noteq> 0" if "0 < dims"
    using that by simp
  from l show "length fv = nat dims" by simp
  from l steps(8,9) show "tb = map (\<lambda>j. lower / F + of_int j * of_int iw * dw) (map int [0..<nat dims])"
    by simp
qed

lemma sum_list_divide: "sum_list (map (\<lambda>m. m / s) ms) = sum_list ms / (s::real)"
  by (induction ms) (simp_all add: add_divide_distrib)

lemma foldl_np_add_Finite:
  "foldl np_add (Finite a) (map Finite vs) = Finite (a + sum_list vs)"
  by (induction vs arbitrary: a) (simp_all add: add.assoc)

lemma np_sum_normalised:
  assumes "sum_list ms \<noteq> 0"
  shows "np_sum (map (\<lambda>m. np_divide m (sum_list ms)) ms) = Finite 1"
proof -
  have "map (\<lambda>m. np_divide m (sum_list ms)) ms = map Finite (map (\<lambda>m. m / sum_list ms) ms)"
    using assms by (simp add: np_divide_def)
  then show ?thesis
    using assms by (simp add: np_sum_def foldl_np_add_Finite sum_list_divide del: map_map)
qed


subsection \<open>Two concrete runs\<close>

text \<open>
  The band \<open>(0, 1/2)\<close> of the two-pulse waveform on grids of 7 and of 8 points: the
  spectrum \<open>[0, 2]\<close> at \<open>[1/6, 1/3]\<close> is interpolated linearly between the two bins and
  held constant outside them.
\<close>

lemma np_linspace_7: "np_linspace 0 (1 / 2) 7 = Inr [0, 1 / 12, 1 / 6, 1 / 4, 1 / 3, 5 / 12, 1 / 2]"
  by (simp add: np_linspace_def upt_rec)

lemma np_interp_7:
  "np_interp [0, 1 / 12, 1 / 6, 1 / 4, 1 / 3, 5 / 12, 1 / 2] [1 / 6, 1 / 3] [0, 2]
     = Inr [0, 0, 0, 1, 2, 2, 2]"
  by (simp add: np_interp_def binary_search_with_guess_def linear_search_def
      interp_value_def Let_def)

lemma simps_triple: "simps [a, b, c] = Inr ((a + 4 * b + c) / 3)"
  by (simp add: simps_def Let_def)

lemma simps_pair: "simps [a, b] = Inr ((a + b) / 2)"
  by (simp add: simps_def Let_def)

lemma range_2: "map int [0..<2] = [0, 1]" and range_3: "map int [0..<3] = [0, 1, 2]"
  by (simp_all add: upt_rec)

lemma slices_7:
  "py_slice [0, 0, 0, 1, 2, 2, 2 :: real] 0 3 = [0, 0, 0]"
  "py_slice [0, 0, 0, 1, 2, 2, 2 :: real] 3 6 = [1, 2, 2]"
  by (simp_all add: py_slice_def Let_def)

lemma masses_two_pulses_7:
  "wave2vec_masses 1 [1, 0, 0, 1, 0, 0] 0 (1 / 2) 2 1 7 = Inr ([0, 11 / 3], [0, 1 / 4], 1 / 12, 3)"
  by (simp add: wave2vec_masses_def fft_two_pulses np_linspace_7 np_interp_7
      py_index_def int_true_div_def range_2 slices_7 simps_triple)

text \<open>On the doubles, \<open>6 * (0.5 / 6)\<close> rounds to \<open>0.5\<close>: the gap is 0.\<close>

lemma gap_7: "coverage_gap64 0 (1 / 2) 1 7 6 = Finite 0"
  by (simp add: coverage_gap64_def np_linspace64_def np_divide64_def fl_values Let_def)

lemma wave2vec_two_pulses_7:
  "wave2vec 1 [1, 0, 0, 1, 0, 0] 0 (1 / 2) 2 1 7 = Inr ([Finite 0, Finite 1], [0, 1 / 4], 1 / 4)"
  by (simp add: wave2vec_def masses_two_pulses_7 gap_7 fl_values np_divide_def Let_def)

lemma np_linspace_8:
  "np_linspace 0 (1 / 2) 8 = Inr [0, 1 / 14, 1 / 7, 3 / 14, 2 / 7, 5 / 14, 3 / 7, 1 / 2]"
  by (simp add: np_linspace_def upt_rec)

lemma np_interp_8:
  "np_interp [0, 1 / 14, 1 / 7, 3 / 14, 2 / 7, 5 / 14, 3 / 7, 1 / 2] [1 / 6, 1 / 3] [0, 2]
     = Inr [0, 0, 0, 4 / 7, 10 / 7, 2, 2, 2]"
  by (simp add: np_interp_def binary_search_with_guess_def linear_search_def
      interp_value_def Let_def)

lemma slices_8:
  "py_slice [0, 0, 0, 4 / 7, 10 / 7, 2, 2, 2 :: real] 0 2 = [0, 0]"
  "py_slice [0, 0, 0, 4 / 7, 10 / 7, 2, 2, 2 :: real] 2 4 = [0, 4 / 7]"
  "py_slice [0, 0, 0, 4 / 7, 10 / 7, 2, 2, 2 :: real] 4 6 = [10 / 7, 2]"
  by (simp_all add: py_slice_def Let_def)

lemma masses_two_pulses_8:
  "wave2vec_masses 1 [1, 0, 0, 1, 0, 0] 0 (1 / 2) 3 1 8
     = Inr ([0, 2 / 7, 12 / 7], [0, 1 / 7, 2 / 7], 1 / 14, 2)"
  by (simp add: wave2vec_masses_def fft_two_pulses np_linspace_8 np_interp_8
      py_index_def int_true_div_def range_3 slices_8 simps_pair)

text \<open>On the doubles the gap is \<open>0.1428571428571429\<close>, the double next to \<open>1/7\<close>.\<close>

lemma gap_8: "coverage_gap64 0 (1 / 2) 1 8 6 = Finite (1286742750677285 / 9007199254740992)"
  by (simp add: coverage_gap64_def np_linspace64_def np_divide64_def fl_values Let_def)

lemma wave2vec_two_pulses_8:
  "wave2vec 1 [1, 0, 0, 1, 0, 0] 0 (1 / 2) 3 1 8 = Inl (ValueError ''Increase upsampling number'')"
  by (simp add: wave2vec_def masses_two_pulses_8 gap_8 fl_values Let_def)

subsection \<open>A run at the threshold\<close>

text \<open>
  The unit impulse \<open>[1, 0, 0]\<close> has the flat spectrum \<open>[1, 1, 1]\<close>; in the band
  \<open>(0, 1/2)\<close> the bin \<open>1/3\<close> remains and the upsampled spectrum is constant. With 101
  grid points and 3 sub-bands of 33 points the last window ends at 99 steps out of 100:
  the exact gap is \<open>1/100\<close>. On the doubles it comes out as \<open>0.010000000000000009\<close>.
\<close>

lemma dft_impulse: "j < 3 \<Longrightarrow> dft [1, 0, 0] j = 1"
  by (simp add: dft_def numeral_3_eq_3)

lemma np_fft_abs_impulse: "np_fft_abs [1, 0, 0] = Inr [1, 1, 1]"
  by (simp add: np_fft_abs_def dft_impulse upt_rec)

lemma np_fftfreq_3: "np_fftfreq (length [1, 1, 1 :: real]) 1 = Inr [0, 1 / 3, - 1 / 3]"
  by (simp add: np_fftfreq_def Let_def upt_rec)

lemma fft_impulse: "fft 1 [1, 0, 0] (Some 0) (Some (1 / 2)) = Inr ([1 / 3], [1])"
  using fft_eq [OF np_fft_abs_impulse np_fftfreq_3, of "Some 0" "Some (1 / 2)"]
  by (simp add: in_band_def)

lemma basic_simps_replicate: "basic_simps (replicate (Suc (2 * k)) c) = 2 * real k * c"
  by (induction k) (simp_all add: algebra_simps)

lemma simps_33: "simps (replicate 33 1) = Inr 32"
proof -
  have "(33::nat) = Suc (2 * 16)" by simp
  then have "basic_simps (replicate 33 1) = 32"
    using basic_simps_replicate [of 16 1] by simp
  then show ?thesis
    by (simp add: simps_def Let_def)
qed

lemma slices_101:
  "py_slice (replicate 101 (1::real)) 0 33 = replicate 33 1"
  "py_slice (replicate 101 (1::real)) 33 66 = replicate 33 1"
  "py_slice (replicate 101 (1::real)) 66 99 = replicate 33 1"
  by (simp_all add: py_slice_def Let_def)

lemma masses_impulse_101:
  "wave2vec_masses 1 [1, 0, 0] 0 (1 / 2) 3 1 101
     = Inr ([32, 32, 32], [0, 33 / 200, 33 / 100], 1 / 200, 33)"
proof -
  have "map (\<lambda>x. 1 :: real) xs = replicate (length xs) 1" for xs :: "nat list"
    by (simp add: map_replicate_const)
  then show ?thesis
    by (simp add: wave2vec_masses_def fft_impulse np_linspace_def np_interp_def
        py_index_def int_true_div_def range_3 slices_101 simps_33 comp_def)
qed

lemma gap_101:
  "coverage_gap64 0 (1 / 2) 1 101 99 = Finite (45035996273705 / 4503599627370496)"
  by (simp add: coverage_gap64_def np_linspace64_def np_divide64_def fl_values Let_def)

lemma wave2vec_impulse_101:
  "wave2vec 1 [1, 0, 0] 0 (1 / 2) 3 1 101 = Inl (ValueError ''Increase upsampling number'')"
  by (simp add: wave2vec_def masses_impulse_101 gap_101 fl_values Let_def)


subsection \<open>Normalisation\<close>

text \<open>
  Claim C1: whenever \<^verbatim>\<open>wave2vec\<close> returns and the sum of the sub-band masses before
  normalisation is not zero, the entries of the returned feature vector are finite and
  sum to exactly 1 (in exact arithmetic; \<^verbatim>\<open>np_sum\<close> is \<open>Finite 1\<close>).
\<close>

theorem wave2vec_sums_to_one:
  assumes "wave2vec dt waveform lower upper dims FFT_units upsample
             = Inr (feature_vector, band_edges, spacing)"
    and "wave2vec_masses dt waveform lower upper dims FFT_units upsample
             = Inr (masses, true_bounds, dw, interval_width)"
    and "sum_list masses \<noteq> 0"
  shows "np_sum feature_vector = Finite 1"
proof -
  from assms(1,2) have "feature_vector = map (\<lambda>m. np_divide m (sum_list masses)) masses"
    by (auto simp: wave2vec_def Let_def split: if_splits)
  with assms(3) show ?thesis
    by (simp add: np_sum_normalised)
qed


theorem wave2vec_sums_to_one_witness:
  "wave2vec 1 [1, 0, 0, 1, 0, 0] 0 (1 / 2) 2 1 7 = Inr ([Finite 0, Finite 1], [0, 1 / 4], 1 / 4) \<and>
   wave2vec_masses 1 [1, 0, 0, 1, 0, 0] 0 (1 / 2) 2 1 7
     = Inr ([0, 11 / 3], [0, 1 / 4], 1 / 12, 3) \<and>
   sum_list [0, 11 / 3 :: real] \<noteq> 0 \<and>
   np_sum [Finite 0, Finite 1] = Finite 1"
proof -
  have s: "sum_list [0, 11 / 3 :: real] \<noteq> 0" by simp
  from wave2vec_sums_to_one [OF wave2vec_two_pulses_7 masses_two_pulses_7 s] s
  show ?thesis
    by (simp add: wave2vec_two_pulses_7 masses_two_pulses_7)
qed

subsection \<open>The coverage check\<close>




subsection \<open>Band edges and spacing\<close>

text \<open>
  Claim C3: whenever \<^verbatim>\<open>wave2vec\<close> returns, the band edges are \<open>dims\<close> many, the
  \<open>j\<close>-th is \<open>lower/FFT_units + j * interval_width * dw\<close> with
  \<open>interval_width = floor(upsample/dims)\<close> and \<open>dw\<close> the step between neighbouring points
  of the upsampled grid, the spacing is the constant \<open>interval_width * dw\<close>, and
  consecutive edges differ by exactly the spacing.
\<close>

theorem wave2vec_band_edges:
  assumes "wave2vec dt waveform lower upper dims FFT_units upsample
             = Inr (feature_vector, band_edges, spacing)"
  defines "interval_width \<equiv> upsample div dims"
    and "dw \<equiv> (upper - lower) / of_int (upsample - 1) / FFT_units"
  shows "0 < dims \<and> length band_edges = nat dims \<and>
         (\<forall>j < nat dims. band_edges ! j
             = lower / FFT_units + real j * of_int interval_width * dw) \<and>
         spacing = of_int interval_width * dw \<and>
         (\<forall>j. Suc j < nat dims \<longrightarrow> band_edges ! Suc j - band_edges ! j = spacing) \<and>
         (\<exists>grid. np_linspace lower upper upsample = Inr grid \<and>
            (\<forall>i. Suc i < length grid \<longrightarrow> grid ! Suc i / FFT_units - grid ! i / FFT_units = dw))"
proof -
  from assms(1) obtain fv tb dw' iw' where
    m: "wave2vec_masses dt waveform lower upper dims FFT_units upsample = Inr (fv, tb, dw', iw')"
    by (auto simp: wave2vec_def err_bind_eq_Inr)
  with assms(1) have d: "0 < dims" and be: "band_edges = tb" and sp: "spacing = of_int iw' * dw'"
    by (auto simp: wave2vec_def Let_def split: if_splits)
  note r = wave2vec_masses_result [OF m]
  from r(3) have dw: "dw' = dw" by (simp add: dw_def)
  from r(4) d have iw: "iw' = interval_width" by (simp add: interval_width_def)
  from r(7) be dw iw have edges:
    "band_edges = map (\<lambda>j. lower / FFT_units + of_int j * of_int interval_width * dw)
                    (map int [0..<nat dims])"
    by simp
  have nth: "band_edges ! j = lower / FFT_units + real j * of_int interval_width * dw"
    if "j < nat dims" for j
    using that by (simp add: edges)
  have diff: "band_edges ! Suc j - band_edges ! j = spacing" if "Suc j < nat dims" for j
    using that nth [of j] nth [of "Suc j"] by (simp add: sp dw iw algebra_simps)
  from m obtain grid where grid: "np_linspace lower upper upsample = Inr grid"
    by (auto simp: wave2vec_masses_def err_bind_eq_Inr Let_def split: prod.splits)
  note g = np_linspace_nth [OF grid]
  have step: "grid ! Suc i / FFT_units - grid ! i / FFT_units = dw" if "Suc i < length grid" for i
  proof -
    define s where "s = (upper - lower) / real_of_int (upsample - 1)"
    from that g have "grid ! Suc i = lower + real (Suc i) * s" and "grid ! i = lower + real i * s"
      unfolding s_def by simp_all
    then have "grid ! Suc i - grid ! i = s"
      by (simp add: algebra_simps)
    then have "grid ! Suc i / FFT_units - grid ! i / FFT_units = s / FFT_units"
      by (simp add: diff_divide_distrib [symmetric])
    then show ?thesis
      by (simp add: dw_def s_def)
  qed
  from d edges nth sp dw iw diff grid step show ?thesis
    by (intro conjI) auto
qed

theorem wave2vec_band_edges_witness:
  "wave2vec 1 [1, 0, 0, 1, 0, 0] 0 (1 / 2) 2 1 7 = Inr ([Finite 0, Finite 1], [0, 1 / 4], 1 / 4) \<and>
   length [0, 1 / 4 :: real] = nat 2 \<and>
   (1 / 4 :: real) = of_int (7 div 2) * ((1 / 2 - 0) / of_int (7 - 1) / 1)"
  using wave2vec_band_edges [OF wave2vec_two_pulses_7]
  by (simp add: wave2vec_two_pulses_7)

subsection \<open>Amplitude scaling\<close>

lemma err_bind_map_sum: "err_bind (map_sum id g m) f = err_bind m (\<lambda>x. f (g x))"
  by (cases m) simp_all

lemma dft_scale: "dft (map ((*) c) y) j = of_real c * dft y j"
  by (simp add: dft_def sum_distrib_left mult.assoc)

lemma np_fft_abs_scale:
  "0 < c \<Longrightarrow> np_fft_abs (map ((*) c) y) = map_sum id (map ((*) c)) (np_fft_abs y)"
  by (simp add: np_fft_abs_def dft_scale norm_mult)

lemma fft_scale:
  assumes "0 < c"
  shows "fft dt (map ((*) c) y) lo hi = map_sum id (\<lambda>(w, z). (w, map ((*) c) z)) (fft dt y lo hi)"
proof (cases "np_fft_abs y")
  case (Inl e)
  with assms show ?thesis
    by (simp add: fft_def np_fft_abs_scale)
next
  case (Inr z0)
  with assms have sc: "np_fft_abs (map ((*) c) y) = Inr (map ((*) c) z0)"
    by (simp add: np_fft_abs_scale)
  show ?thesis
  proof (cases "np_fftfreq (length z0) dt")
    case (Inl e)
    with Inr sc show ?thesis
      by (simp add: fft_def)
  next
    case w0: (Inr w0)
    then have w0': "np_fftfreq (length (map ((*) c) z0)) dt = Inr w0"
      by simp
    have "filter (\<lambda>(f, m). in_band lo hi f) (zip ws (map ((*) c) zs))
        = map (\<lambda>(f, m). (f, c * m)) (filter (\<lambda>(f, m). in_band lo hi f) (zip ws zs))"
      for ws zs :: "real list"
      by (simp add: zip_map2 filter_map comp_def case_prod_unfold)
    then show ?thesis
      using fft_eq [OF Inr w0, of lo hi] fft_eq [OF sc w0', of lo hi]
      by (simp add: Let_def take_map comp_def case_prod_unfold)
  qed
qed

lemma interp_value_scale:
  assumes "length fp = length xp" and "xp \<noteq> []"
  shows "interp_value x xp (map ((*) c) fp) j = c * interp_value x xp fp j"
proof -
  from assms have len: "0 < length fp" "length xp - 1 < length fp" by auto
  show ?thesis
  proof (cases "j < 0 \<or> int (length xp) - 1 \<le> j")
    case True
    with len assms(1) show ?thesis
      by (auto simp: interp_value_def Let_def)
  next
    case False
    with assms(1) have "nat j < length fp" "nat j + 1 < length fp" by auto
    with False show ?thesis
      by (simp add: interp_value_def Let_def algebra_simps diff_divide_distrib)
  qed
qed

lemma interp_loop_scale:
  assumes "length fp = length xp" and "xp \<noteq> []"
  shows "interp_loop xs xp (map ((*) c) fp) j = map ((*) c) (interp_loop xs xp fp j)"
  by (induction xs arbitrary: j) (simp_all add: Let_def interp_value_scale [OF assms])

lemma np_interp_scale:
  "np_interp xs xp (map ((*) c) fp) = map_sum id (map ((*) c)) (np_interp xs xp fp)"
proof (cases "xp = [] \<or> length fp \<noteq> length xp")
  case True
  then show ?thesis by (auto simp: np_interp_def)
next
  case False
  then have "0 < length fp" by auto
  with False show ?thesis
    by (simp add: np_interp_def interp_loop_scale)
qed

lemma basic_simps_scale: "basic_simps (map ((*) c) ys) = c * basic_simps ys"
  by (induction ys rule: basic_simps.induct) (simp_all add: algebra_simps add_divide_distrib)

lemma simps_scale: "simps (map ((*) c) ys) = map_sum id ((*) c) (simps ys)"
proof (cases "ys = []")
  case True
  then show ?thesis by (simp add: simps_def)
next
  case False
  show ?thesis
  proof (cases "even (length ys)")
    case True
    with False have "2 \<le> length ys"
      by (cases ys) (auto simp: Suc_le_eq)
    with False have nth: "map ((*) c) ys ! (length ys - 1) = c * ys ! (length ys - 1)"
      "map ((*) c) ys ! (length ys - 2) = c * ys ! (length ys - 2)"
      "map ((*) c) ys ! 1 = c * ys ! 1" "map ((*) c) ys ! 0 = c * ys ! 0"
      by simp_all
    have "basic_simps (butlast (map ((*) c) ys)) = c * basic_simps (butlast ys)"
      "basic_simps (tl (map ((*) c) ys)) = c * basic_simps (tl ys)"
      by (simp_all add: map_butlast [symmetric] map_tl [symmetric] basic_simps_scale)
    with True False nth show ?thesis
      by (simp add: simps_def Let_def algebra_simps add_divide_distrib del: One_nat_def)
  next
    case odd: False
    with False show ?thesis
      by (simp add: simps_def Let_def basic_simps_scale)
  qed
qed

lemma py_slice_map: "py_slice (map f xs) a b = map f (py_slice xs a b)"
  by (simp add: py_slice_def Let_def take_map drop_map)

lemma w2v_loop_scale:
  "w2v_loop (map ((*) c) uz) iw dw lower F js (map ((*) c) fv0, tb0)
     = map_sum id (\<lambda>(fv, tb). (map ((*) c) fv, tb)) (w2v_loop uz iw dw lower F js (fv0, tb0))"
proof (induction js arbitrary: fv0 tb0)
  case Nil
  then show ?case by simp
next
  case (Cons j js)
  show ?case
  proof (cases "simps (py_slice uz (j * iw) ((j + 1) * iw))")
    case (Inl e)
    then show ?thesis by (simp add: py_slice_map simps_scale)
  next
    case (Inr m)
    from Cons.IH [of "fv0 @ [m]"] Inr show ?thesis
      by (simp add: py_slice_map simps_scale)
  qed
qed

lemma wave2vec_masses_scale:
  assumes "0 < c"
  shows "wave2vec_masses dt (map ((*) c) y) lower upper dims F upsample
     = map_sum id (\<lambda>(fv, tb, dw, iw). (map ((*) c) fv, tb, dw, iw))
         (wave2vec_masses dt y lower upper dims F upsample)"
proof -
  have loop: "w2v_loop (map ((*) c) uz) iw dw lower F js ([], [])
     = map_sum id (\<lambda>(fv, tb). (map ((*) c) fv, tb)) (w2v_loop uz iw dw lower F js ([], []))"
    for uz iw dw js
    using w2v_loop_scale [of c uz iw dw lower F js "[]" "[]"] by simp
  show ?thesis
    unfolding wave2vec_masses_def fft_scale [OF assms]
    by (auto simp: err_bind_def Let_def np_interp_scale loop split: sum.splits prod.splits)
qed

lemma np_divide_scale: "0 < c \<Longrightarrow> np_divide (c * m) (c * s) = np_divide m s"
  by (simp add: np_divide_def zero_less_mult_iff)

lemma sum_list_scale: "sum_list (map ((*) c) ms) = c * sum_list (ms :: real list)"
  by (induction ms) (simp_all add: algebra_simps)

lemma wave2vec_scale:
  assumes "0 < c"
  shows "wave2vec dt (map ((*) c) y) lower upper dims F upsample
           = wave2vec dt y lower upper dims F upsample"
  unfolding wave2vec_def wave2vec_masses_scale [OF assms]
  using assms
  by (cases "wave2vec_masses dt y lower upper dims F upsample")
     (auto simp: Let_def sum_list_scale np_divide_scale comp_def)


text \<open>
  Claim C4: for every \<open>c > 0\<close>, if \<^verbatim>\<open>wave2vec\<close> returns on a waveform, it returns on
  the waveform scaled by \<open>c\<close> as well, with the same feature vector, band edges and
  spacing.
\<close>

theorem wave2vec_amplitude_invariant:
  assumes "0 < c"
    and "wave2vec dt waveform lower upper dims FFT_units upsample
           = Inr (feature_vector, band_edges, spacing)"
  shows "wave2vec dt (map (\<lambda>v. c * v) waveform) lower upper dims FFT_units upsample
           = Inr (feature_vector, band_edges, spacing)"
  using wave2vec_scale [OF assms(1), of dt waveform lower upper dims FFT_units upsample] assms(2)
  by simp

theorem wave2vec_amplitude_invariant_witness:
  "(0::real) < 3 \<and>
   wave2vec 1 [1, 0, 0, 1, 0, 0] 0 (1 / 2) 2 1 7 = Inr ([Finite 0, Finite 1], [0, 1 / 4], 1 / 4) \<and>
   wave2vec 1 [3, 0, 0, 3, 0, 0] 0 (1 / 2) 2 1 7 = Inr ([Finite 0, Finite 1], [0, 1 / 4], 1 / 4)"
proof -
  have c: "(0::real) < 3" by simp
  from wave2vec_amplitude_invariant [OF c wave2vec_two_pulses_7] c show ?thesis
    by (simp add: wave2vec_two_pulses_7)
qed

end
